theory Spec2Isabelle
  imports Main
begin

section \<open>Python values, objects and dictionaries\<close>

text \<open>
  The server of \<^verbatim>\<open>backend-server-examples/python/main.py\<close> passes values between
  HTTP bodies and the external SDK without looking inside them. A value is one of
  Python's JSON-like values.
\<close>

datatype pyval =
    PNone
  | PBool bool
  | PInt int
  | PStr string
  | PList "pyval list"
  | PDict "(string \<times> pyval) list"

text \<open>
  The result classes of the SDK are not part of the repository. A result object is
  modelled by the values of its attributes: \<^verbatim>\<open>result.otp\<close> is \<open>result ''otp''\<close>.
  The one result the source treats as a dictionary (\<^verbatim>\<open>"qr_code_link" in result\<close>,
  \<^verbatim>\<open>result["tx_id"]\<close>) is a partial map, where a missing key is \<open>None\<close>.
\<close>

type_synonym pyobject = "string \<Rightarrow> pyval"

type_synonym pydict = "string \<rightharpoonup> pyval"

section \<open>Exceptions\<close>

text \<open>
  What \<^verbatim>\<open>handle_sdk_error\<close> reads of the attribute \<^verbatim>\<open>context\<close> of an exception:
  whether the exception has the attribute (\<^verbatim>\<open>hasattr(error, 'context')\<close>), whether its
  value is truthy, and, for a truthy value, its attributes. A truthy value is an object
  with the name of its type and its attributes; an attribute it does not have is
  \<open>None\<close> in the map. The field of the exception that holds it is \<open>context'\<close>.
\<close>

datatype pycontext =
    No_attribute
  | Falsy_context
  | Context_object string "string \<rightharpoonup> pyval"

text \<open>
  What \<^verbatim>\<open>handle_sdk_error\<close> observes of an exception: the attribute \<^verbatim>\<open>context\<close>, the
  four \<^verbatim>\<open>isinstance\<close> tests, \<^verbatim>\<open>str(error)\<close>, and the attributes \<^verbatim>\<open>status_code\<close>,
  \<^verbatim>\<open>is_api_key_error\<close> and \<^verbatim>\<open>code\<close> that the SDK's error classes carry. The class
  hierarchy of the SDK is not in the repository, so the four tests are independent
  fields and nothing is assumed about which classes inherit from which. An attribute
  of an error class is only read in the branch of the class that declares it. The
  values of this type are the instances of \<^verbatim>\<open>Exception\<close>, which is the type of the
  parameter of \<^verbatim>\<open>handle_sdk_error\<close> and what the \<^verbatim>\<open>except Exception\<close> clauses catch.
\<close>

record exn =
  is_AuthenticationError :: bool
  is_NetworkError :: bool
  is_ServerError :: bool
  is_DCIDServerSDKError :: bool
  str :: string
  status_code :: "int option"
  is_api_key_error :: bool
  code :: pyval
  context' :: pycontext

text \<open>
  Python's \<^verbatim>\<open>KeyError\<close>, raised by \<^verbatim>\<open>result[key]\<close> on a missing key, and
  \<^verbatim>\<open>AttributeError\<close>, raised by \<^verbatim>\<open>obj.name\<close> on an object of type \<open>ty\<close> without
  that attribute. Neither is an SDK error and neither has an attribute \<^verbatim>\<open>context\<close>.
  The \<^verbatim>\<open>str\<close> of a \<^verbatim>\<open>KeyError\<close> is the key in single quotes.
\<close>

definition KeyError :: "string \<Rightarrow> exn" where
  "KeyError key =
     \<lparr>is_AuthenticationError = False, is_NetworkError = False, is_ServerError = False,
      is_DCIDServerSDKError = False, str = [CHR 0x27] @ key @ [CHR 0x27],
      status_code = None, is_api_key_error = False, code = PNone,
      context' = No_attribute\<rparr>"

definition AttributeError :: "string \<Rightarrow> string \<Rightarrow> exn" where
  "AttributeError ty name =
     \<lparr>is_AuthenticationError = False, is_NetworkError = False, is_ServerError = False,
      is_DCIDServerSDKError = False,
      str = [CHR 0x27] @ ty @ [CHR 0x27] @ '' object has no attribute '' @
            [CHR 0x27] @ name @ [CHR 0x27],
      status_code = None, is_api_key_error = False, code = PNone,
      context' = No_attribute\<rparr>"

definition getitem :: "pydict \<Rightarrow> string \<Rightarrow> exn + pyval" where
  "getitem d key = (case d key of None \<Rightarrow> Inl (KeyError key) | Some v \<Rightarrow> Inr v)"

section \<open>Responses\<close>

record JSONResponse =
  status_code :: int
  content :: "(string \<times> pyval) list"

definition HTTP_200_OK :: int where
  "HTTP_200_OK = 200"

definition HTTP_401_UNAUTHORIZED :: int where
  "HTTP_401_UNAUTHORIZED = 401"

definition HTTP_500_INTERNAL_SERVER_ERROR :: int where
  "HTTP_500_INTERNAL_SERVER_ERROR = 500"

definition HTTP_502_BAD_GATEWAY :: int where
  "HTTP_502_BAD_GATEWAY = 502"

text \<open>
  A handler that returns a dictionary: the framework sends it as the JSON body of a
  response with status 200.
\<close>

definition dict_response :: "(string \<times> pyval) list \<Rightarrow> JSONResponse" where
  "dict_response d = \<lparr>JSONResponse.status_code = HTTP_200_OK, content = d\<rparr>"

text \<open>
  \<^verbatim>\<open>error.status_code or default\<close>: Python's \<^verbatim>\<open>or\<close> gives the left operand when it
  is truthy; \<^verbatim>\<open>None\<close> and \<^verbatim>\<open>0\<close> are not.
\<close>

definition status_or :: "int option \<Rightarrow> int \<Rightarrow> int" where
  "status_or s d = (case s of None \<Rightarrow> d | Some n \<Rightarrow> if n = 0 then d else n)"

text \<open>
  The diagnostic output of \<^verbatim>\<open>handle_sdk_error\<close>, lines 158 to 160. What is written to
  standard output is not modelled; whether the statements raise is. Line 158 formats the
  name of the type and \<^verbatim>\<open>str(error)\<close>. Line 159 tests
  \<^verbatim>\<open>hasattr(error, 'context') and error.context\<close>, and line 160 then reads
  \<^verbatim>\<open>error.context.url\<close>, \<^verbatim>\<open>error.context.status_code\<close> and
  \<^verbatim>\<open>error.context.error_source\<close>, in this order: the first of them that the context
  does not have raises \<^verbatim>\<open>AttributeError\<close>.
\<close>

definition print_error_details :: "exn \<Rightarrow> exn + unit" where
  "print_error_details error =
     (case context' error of
        No_attribute \<Rightarrow> Inr ()
      | Falsy_context \<Rightarrow> Inr ()
      | Context_object ty attrs \<Rightarrow>
          (case attrs ''url'' of
             None \<Rightarrow> Inl (AttributeError ty ''url'')
           | Some url \<Rightarrow>
               (case attrs ''status_code'' of
                  None \<Rightarrow> Inl (AttributeError ty ''status_code'')
                | Some status \<Rightarrow>
                    (case attrs ''error_source'' of
                       None \<Rightarrow> Inl (AttributeError ty ''error_source'')
                     | Some source \<Rightarrow> Inr ()))))"

text \<open>The classification of \<^verbatim>\<open>handle_sdk_error\<close>, lines 162 to 190.\<close>

definition error_response :: "exn \<Rightarrow> JSONResponse" where
  "error_response error =
     (if is_AuthenticationError error then
        \<lparr>JSONResponse.status_code = status_or (exn.status_code error) HTTP_401_UNAUTHORIZED,
         content = [(''error'', PStr (str error)),
                    (''type'', PStr ''AuthenticationError''),
                    (''isAPIKeyError'', PBool (is_api_key_error error))]\<rparr>
      else if is_NetworkError error then
        \<lparr>JSONResponse.status_code = HTTP_502_BAD_GATEWAY,
         content = [(''error'', PStr (str error)),
                    (''type'', PStr ''NetworkError''),
                    (''code'', code error)]\<rparr>
      else if is_ServerError error then
        \<lparr>JSONResponse.status_code = status_or (exn.status_code error) HTTP_500_INTERNAL_SERVER_ERROR,
         content = [(''error'', PStr (str error)), (''type'', PStr ''ServerError'')]\<rparr>
      else if is_DCIDServerSDKError error then
        \<lparr>JSONResponse.status_code = status_or (exn.status_code error) HTTP_500_INTERNAL_SERVER_ERROR,
         content = [(''error'', PStr (str error)), (''type'', PStr ''SDKError'')]\<rparr>
      else
        \<lparr>JSONResponse.status_code = HTTP_500_INTERNAL_SERVER_ERROR,
         content = [(''error'', PStr (str error)), (''type'', PStr ''UnknownError'')]\<rparr>)"

text \<open>
  \<^verbatim>\<open>handle_sdk_error\<close>, lines 155 to 190: the diagnostic output, then the
  classification. The result is \<open>Inl\<close> of the exception the function raises, or \<open>Inr\<close>
  of the response it returns.
\<close>

definition handle_sdk_error :: "exn \<Rightarrow> exn + JSONResponse" where
  "handle_sdk_error error =
     (case print_error_details error of
        Inl raised \<Rightarrow> Inl raised
      | Inr printed \<Rightarrow> Inr (error_response error))"

text \<open>
  The contexts on which the diagnostic output does not raise: no attribute, a falsy
  value, or an object with \<^verbatim>\<open>url\<close>, \<^verbatim>\<open>status_code\<close> and \<^verbatim>\<open>error_source\<close>, as the
  contexts are that the SDK gives its own errors.
\<close>

definition context_printable :: "exn \<Rightarrow> bool" where
  "context_printable error =
     (case context' error of
        No_attribute \<Rightarrow> True
      | Falsy_context \<Rightarrow> True
      | Context_object ty attrs \<Rightarrow>
          attrs ''url'' \<noteq> None \<and> attrs ''status_code'' \<noteq> None \<and>
          attrs ''error_source'' \<noteq> None)"

section \<open>The SDK client\<close>

text \<open>
  Every call the server makes on the process-wide \<^verbatim>\<open>sdk\<close> object. The operations of
  the sub-modules carry the keyword arguments of their options object, in the order
  the source writes them; \<^verbatim>\<open>Set_auth_token\<close> and \<^verbatim>\<open>Set_tokens\<close> are the two
  methods of the client itself.
\<close>

datatype sdk_call =
    Auth_register_otp "string option" "string option"
  | Auth_confirm_otp "string option" "string option" string
  | Auth_admin_login "string option" "string option"
  | Auth_refresh_token string
  | Encryption_get_key string
  | Encryption_generate_key string string
  | Issuer_issue_credential string string "(string \<times> pyval) list" string
  | Issuer_get_credential_offer string string
  | Ipfs_store_credential string string pyval bool
  | Ipfs_retrieve_user_credential string string bool
  | Ipfs_get_all_user_credentials string bool
  | Verification_verify_sign_in string
  | Verification_get_link_store string
  | Verification_post_link_store string string string string string "(string \<times> pyval) list"
  | Verification_verify_callback string string
  | Analytics_start_session "string option" "string option" "string option" "string option"
  | Analytics_end_session string "string option" "string option" "string option"
  | Set_auth_token string
  | Set_tokens pyobject

text \<open>
  The client is opaque. Its state is the current auth token and the history of the
  calls made on it, oldest first.
\<close>

record sdk_client =
  auth_token :: "string option"
  history :: "sdk_call list"

definition invoke :: "sdk_call \<Rightarrow> sdk_client \<Rightarrow> sdk_client" where
  "invoke call c = c\<lparr>history := history c @ [call]\<rparr>"

text \<open>
  Modelled from the spec: \<^verbatim>\<open>sdk.set_auth_token\<close> and \<^verbatim>\<open>sdk.set_tokens\<close> are methods
  of the SDK client, which is not part of the repository. The spec describes the client
  as holding a single mutable current auth token, set from the request's authorization
  header; \<open>set_auth_token\<close> stores it. Of \<open>set_tokens\<close> only the call is recorded.
  Neither raises.
\<close>

definition set_auth_token :: "string \<Rightarrow> sdk_client \<Rightarrow> sdk_client" where
  "set_auth_token token c = invoke (Set_auth_token token) (c\<lparr>auth_token := Some token\<rparr>)"

definition set_tokens :: "pyobject \<Rightarrow> sdk_client \<Rightarrow> sdk_client" where
  "set_tokens tokens c = invoke (Set_tokens tokens) c"

text \<open>
  The operations of the SDK's sub-modules are a parameter: \<open>sdk call c\<close> is the outcome
  of \<open>call\<close> made in the client state \<open>c\<close>, an exception or a result.
\<close>

type_synonym 'r sdk = "sdk_call \<Rightarrow> sdk_client \<Rightarrow> exn + 'r"

definition startswith :: "string \<Rightarrow> string \<Rightarrow> bool" where
  "startswith s p = (take (length p) s = p)"

text \<open>
  \<^verbatim>\<open>set_auth_from_request\<close>, lines 58 to 62. A string is truthy when it is not empty.
  The prefix \<^verbatim>\<open>Bearer \<close> is seven characters, so \<^verbatim>\<open>authorization[7:]\<close> drops exactly
  the prefix.
\<close>

definition set_auth_from_request :: "string option \<Rightarrow> sdk_client \<Rightarrow> sdk_client" where
  "set_auth_from_request authorization c =
     (case authorization of
        None \<Rightarrow> c
      | Some a \<Rightarrow>
          if a \<noteq> [] \<and> startswith a ''Bearer ''
          then (let token = drop 7 a in set_auth_token token c)
          else c)"

section \<open>Request models\<close>

text \<open>
  The request bodies, lines 66 to 152, with the field names of the source (the JSON
  aliases are the framework's concern). \<^verbatim>\<open>Optional[str] = None\<close> is a
  \<open>string option\<close>, where \<open>None\<close> is also the value of a field the body omits.
\<close>

record RegisterOTPRequest =
  email :: "string option"
  phone :: "string option"

record ConfirmOTPRequest =
  email :: "string option"
  phone :: "string option"
  otp :: string

record RefreshTokenRequest =
  refresh_token :: string

record GenerateEncryptionKeyRequest =
  did :: string
  owner_email :: string

record GetEncryptedKeyRequest =
  did :: string

record IssueCredentialRequest =
  did :: string
  credential_name :: string
  values' :: "(string \<times> pyval) list"
  owner_email :: string

record StoreCredentialRequest =
  did :: string
  credential_type :: string
  credential :: pyval
  encrypted :: bool

record RetrieveUserCredentialRequest =
  did :: string
  credential_type :: string
  include_cid_only :: bool

record GetAllUserCredentialsRequest =
  did :: string
  include_credential_data :: bool

record VerifySignInRequest =
  credential_name :: string

record PostLinkStoreRequest =
  id' :: string
  thid :: string
  type' :: string
  from_did :: string
  typ' :: string
  body :: "(string \<times> pyval) list"

record VerifyCallbackRequest =
  token :: string

record StartSessionRequest =
  user_id :: "string option"
  anonymous_id :: "string option"
  page_location :: "string option"
  session_id :: "string option"

record EndSessionRequest =
  session_id :: string
  user_id :: "string option"
  anonymous_id :: "string option"
  ended_at :: "string option"

text \<open>
  The three models with an optional boolean field: \<^verbatim>\<open>encrypted: bool = True\<close>,
  \<^verbatim>\<open>include_cid_only: bool = Field(False, ...)\<close> and
  \<^verbatim>\<open>include_credential_data: bool = Field(False, ...)\<close>. The constructor takes the
  boolean as an option, \<open>None\<close> for a body that omits the field, and fills in the
  default the class declares.
\<close>

definition StoreCredentialRequest_init ::
  "string \<Rightarrow> string \<Rightarrow> pyval \<Rightarrow> bool option \<Rightarrow> StoreCredentialRequest" where
  "StoreCredentialRequest_init d t cr enc =
     \<lparr>StoreCredentialRequest.did = d, credential_type = t, credential = cr,
      encrypted = (case enc of None \<Rightarrow> True | Some b \<Rightarrow> b)\<rparr>"

definition RetrieveUserCredentialRequest_init ::
  "string \<Rightarrow> string \<Rightarrow> bool option \<Rightarrow> RetrieveUserCredentialRequest" where
  "RetrieveUserCredentialRequest_init d t cid_only =
     \<lparr>RetrieveUserCredentialRequest.did = d, credential_type = t,
      include_cid_only = (case cid_only of None \<Rightarrow> False | Some b \<Rightarrow> b)\<rparr>"

definition GetAllUserCredentialsRequest_init ::
  "string \<Rightarrow> bool option \<Rightarrow> GetAllUserCredentialsRequest" where
  "GetAllUserCredentialsRequest_init d with_data =
     \<lparr>GetAllUserCredentialsRequest.did = d,
      include_credential_data = (case with_data of None \<Rightarrow> False | Some b \<Rightarrow> b)\<rparr>"

section \<open>Route handlers\<close>

text \<open>
  Each handler takes the SDK, its request and the client state, and returns its outcome
  with the client state it leaves. The outcome is \<open>Inr\<close> of the response, or \<open>Inl\<close> of
  an exception that leaves the handler. The body of every handler but \<^verbatim>\<open>health\<close> is
  one \<^verbatim>\<open>try\<close> block whose \<^verbatim>\<open>except Exception as e\<close> clause is
  \<^verbatim>\<open>return handle_sdk_error(e)\<close>; what \<^verbatim>\<open>handle_sdk_error\<close> raises there is not
  caught. \<^verbatim>\<open>health\<close> has no \<^verbatim>\<open>try\<close> block and nothing in it raises.
\<close>

definition health :: "sdk_client \<Rightarrow> JSONResponse \<times> sdk_client" where
  "health c =
     (dict_response [(''status'', PStr ''ok''),
                     (''service'', PStr ''dcid-server-sdk-test-server'')], c)"

definition sign_in_initiate ::
  "pyobject sdk \<Rightarrow> RegisterOTPRequest \<Rightarrow> sdk_client \<Rightarrow> (exn + JSONResponse) \<times> sdk_client" where
  "sign_in_initiate sdk request c =
     (let call = Auth_register_otp (RegisterOTPRequest.email request)
                   (RegisterOTPRequest.phone request)
      in case sdk call c of
           Inl e \<Rightarrow> (handle_sdk_error e, invoke call c)
         | Inr result \<Rightarrow> (Inr (dict_response [(''otp'', result ''otp'')]), invoke call c))"

definition sign_in_confirm ::
  "pyobject sdk \<Rightarrow> ConfirmOTPRequest \<Rightarrow> sdk_client \<Rightarrow> (exn + JSONResponse) \<times> sdk_client" where
  "sign_in_confirm sdk request c =
     (let call = Auth_confirm_otp (ConfirmOTPRequest.email request)
                   (ConfirmOTPRequest.phone request) (otp request)
      in case sdk call c of
           Inl e \<Rightarrow> (handle_sdk_error e, invoke call c)
         | Inr tokens \<Rightarrow>
             (Inr (dict_response [(''access_token'', tokens ''access_token''),
                                  (''refresh_token'', tokens ''refresh_token'')]),
              set_tokens tokens (invoke call c)))"

definition admin_login ::
  "pyobject sdk \<Rightarrow> RegisterOTPRequest \<Rightarrow> sdk_client \<Rightarrow> (exn + JSONResponse) \<times> sdk_client" where
  "admin_login sdk request c =
     (let call = Auth_admin_login (RegisterOTPRequest.email request)
                   (RegisterOTPRequest.phone request)
      in case sdk call c of
           Inl e \<Rightarrow> (handle_sdk_error e, invoke call c)
         | Inr result \<Rightarrow> (Inr (dict_response [(''otp'', result ''otp'')]), invoke call c))"

definition token_refresh ::
  "pyobject sdk \<Rightarrow> RefreshTokenRequest \<Rightarrow> sdk_client \<Rightarrow> (exn + JSONResponse) \<times> sdk_client" where
  "token_refresh sdk request c =
     (let call = Auth_refresh_token (refresh_token request)
      in case sdk call c of
           Inl e \<Rightarrow> (handle_sdk_error e, invoke call c)
         | Inr tokens \<Rightarrow>
             (Inr (dict_response [(''access_token'', tokens ''access_token''),
                                  (''refresh_token'', tokens ''refresh_token'')]),
              set_tokens tokens (invoke call c)))"

definition get_encrypted_key ::
  "pyobject sdk \<Rightarrow> GetEncryptedKeyRequest \<Rightarrow> string option \<Rightarrow> sdk_client
     \<Rightarrow> (exn + JSONResponse) \<times> sdk_client" where
  "get_encrypted_key sdk request authorization c =
     (let c1 = set_auth_from_request authorization c;
          call = Encryption_get_key (GetEncryptedKeyRequest.did request)
      in case sdk call c1 of
           Inl e \<Rightarrow> (handle_sdk_error e, invoke call c1)
         | Inr result \<Rightarrow>
             (Inr (dict_response [(''encryptedKey'', result ''encrypted_key''),
                                  (''did'', result ''did''),
                                  (''message'', result ''message'')]),
              invoke call c1))"

definition generate_encrypted_key ::
  "pyobject sdk \<Rightarrow> GenerateEncryptionKeyRequest \<Rightarrow> string option \<Rightarrow> sdk_client
     \<Rightarrow> (exn + JSONResponse) \<times> sdk_client" where
  "generate_encrypted_key sdk request authorization c =
     (let c1 = set_auth_from_request authorization c;
          call = Encryption_generate_key (GenerateEncryptionKeyRequest.did request)
                   (GenerateEncryptionKeyRequest.owner_email request)
      in case sdk call c1 of
           Inl e \<Rightarrow> (handle_sdk_error e, invoke call c1)
         | Inr result \<Rightarrow>
             (Inr (dict_response [(''encryptedKey'', result ''encrypted_key''),
                                  (''did'', result ''did''),
                                  (''ownerEmail'', result ''owner_email''),
                                  (''message'', result ''message'')]),
              invoke call c1))"

text \<open>
  \<^verbatim>\<open>issue_credential\<close>, lines 306 to 325. The result is a dictionary; a subscript
  on a missing key raises \<^verbatim>\<open>KeyError\<close> inside the \<^verbatim>\<open>try\<close> block, so the
  \<^verbatim>\<open>except\<close> clause answers it. The dictionary display evaluates its values left
  to right.
\<close>

definition issue_credential ::
  "pydict sdk \<Rightarrow> IssueCredentialRequest \<Rightarrow> string option \<Rightarrow> sdk_client
     \<Rightarrow> (exn + JSONResponse) \<times> sdk_client" where
  "issue_credential sdk request authorization c =
     (let c1 = set_auth_from_request authorization c;
          call = Issuer_issue_credential (IssueCredentialRequest.did request)
                   (IssueCredentialRequest.credential_name request) (values' request)
                   (IssueCredentialRequest.owner_email request)
      in case sdk call c1 of
           Inl e \<Rightarrow> (handle_sdk_error e, invoke call c1)
         | Inr result \<Rightarrow>
             (if result ''qr_code_link'' \<noteq> None then
                (case getitem result ''qr_code_link'' of
                   Inl e \<Rightarrow> handle_sdk_error e
                 | Inr qr \<Rightarrow>
                     (case getitem result ''schema_type'' of
                        Inl e \<Rightarrow> handle_sdk_error e
                      | Inr st \<Rightarrow>
                          Inr (dict_response [(''qrCodeLink'', qr), (''schemaType'', st)])))
              else
                (case getitem result ''tx_id'' of
                   Inl e \<Rightarrow> handle_sdk_error e
                 | Inr tx \<Rightarrow>
                     (case getitem result ''claim_id'' of
                        Inl e \<Rightarrow> handle_sdk_error e
                      | Inr cl \<Rightarrow>
                          Inr (dict_response [(''txId'', tx), (''claimId'', cl)]))),
              invoke call c1))"

definition get_credential_offer ::
  "pyobject sdk \<Rightarrow> string \<Rightarrow> string \<Rightarrow> string option \<Rightarrow> sdk_client
     \<Rightarrow> (exn + JSONResponse) \<times> sdk_client" where
  "get_credential_offer sdk claimId txId authorization c =
     (let c1 = set_auth_from_request authorization c;
          call = Issuer_get_credential_offer claimId txId
      in case sdk call c1 of
           Inl e \<Rightarrow> (handle_sdk_error e, invoke call c1)
         | Inr result \<Rightarrow>
             (Inr (dict_response [(''status'', result ''status''),
                                  (''txId'', result ''tx_id''),
                                  (''claimId'', result ''claim_id''),
                                  (''offerAvailable'', result ''offer_available''),
                                  (''qrCodeLink'', result ''qr_code_link''),
                                  (''offer'', result ''offer''),
                                  (''message'', result ''message'')]),
              invoke call c1))"

definition store_credential ::
  "pyobject sdk \<Rightarrow> StoreCredentialRequest \<Rightarrow> string option \<Rightarrow> sdk_client
     \<Rightarrow> (exn + JSONResponse) \<times> sdk_client" where
  "store_credential sdk request authorization c =
     (let c1 = set_auth_from_request authorization c;
          call = Ipfs_store_credential (StoreCredentialRequest.did request)
                   (StoreCredentialRequest.credential_type request) (credential request)
                   (encrypted request)
      in case sdk call c1 of
           Inl e \<Rightarrow> (handle_sdk_error e, invoke call c1)
         | Inr result \<Rightarrow>
             (Inr (dict_response [(''cid'', result ''cid''),
                                  (''did'', result ''did''),
                                  (''credentialType'', result ''credential_type''),
                                  (''message'', result ''message''),
                                  (''encrypted'', result ''encrypted'')]),
              invoke call c1))"

definition retrieve_user_credential ::
  "pyobject sdk \<Rightarrow> RetrieveUserCredentialRequest \<Rightarrow> string option \<Rightarrow> sdk_client
     \<Rightarrow> (exn + JSONResponse) \<times> sdk_client" where
  "retrieve_user_credential sdk request authorization c =
     (let c1 = set_auth_from_request authorization c;
          call = Ipfs_retrieve_user_credential (RetrieveUserCredentialRequest.did request)
                   (RetrieveUserCredentialRequest.credential_type request)
                   (include_cid_only request)
      in case sdk call c1 of
           Inl e \<Rightarrow> (handle_sdk_error e, invoke call c1)
         | Inr result \<Rightarrow>
             (Inr (dict_response [(''cid'', result ''cid''),
                                  (''did'', result ''did''),
                                  (''credentialType'', result ''credential_type''),
                                  (''message'', result ''message''),
                                  (''credential'', result ''credential''),
                                  (''encrypted'', result ''encrypted'')]),
              invoke call c1))"

definition get_all_user_credentials ::
  "pyobject sdk \<Rightarrow> GetAllUserCredentialsRequest \<Rightarrow> string option \<Rightarrow> sdk_client
     \<Rightarrow> (exn + JSONResponse) \<times> sdk_client" where
  "get_all_user_credentials sdk request authorization c =
     (let c1 = set_auth_from_request authorization c;
          call = Ipfs_get_all_user_credentials (GetAllUserCredentialsRequest.did request)
                   (include_credential_data request)
      in case sdk call c1 of
           Inl e \<Rightarrow> (handle_sdk_error e, invoke call c1)
         | Inr result \<Rightarrow>
             (Inr (dict_response [(''credentials'', result ''credentials''),
                                  (''did'', result ''did''),
                                  (''count'', result ''count''),
                                  (''message'', result ''message'')]),
              invoke call c1))"

definition verify_sign_in ::
  "pyobject sdk \<Rightarrow> VerifySignInRequest \<Rightarrow> string option \<Rightarrow> sdk_client
     \<Rightarrow> (exn + JSONResponse) \<times> sdk_client" where
  "verify_sign_in sdk request authorization c =
     (let c1 = set_auth_from_request authorization c;
          call = Verification_verify_sign_in (VerifySignInRequest.credential_name request)
      in case sdk call c1 of
           Inl e \<Rightarrow> (handle_sdk_error e, invoke call c1)
         | Inr result \<Rightarrow>
             (Inr (dict_response [(''proofRequestUrl'', result ''proof_request_url''),
                                  (''iden3commUrl'', result ''iden3comm_url''),
                                  (''sessionId'', result ''session_id'')]),
              invoke call c1))"

definition get_link_store ::
  "pyobject sdk \<Rightarrow> string \<Rightarrow> string option \<Rightarrow> sdk_client \<Rightarrow> (exn + JSONResponse) \<times> sdk_client" where
  "get_link_store sdk ident authorization c =
     (let c1 = set_auth_from_request authorization c;
          call = Verification_get_link_store ident
      in case sdk call c1 of
           Inl e \<Rightarrow> (handle_sdk_error e, invoke call c1)
         | Inr result \<Rightarrow>
             (Inr (dict_response [(''id'', result ''id''),
                                  (''thid'', result ''thid''),
                                  (''type'', result ''type''),
                                  (''from'', result ''from_did''),
                                  (''typ'', result ''typ''),
                                  (''body'', result ''body'')]),
              invoke call c1))"

definition post_link_store ::
  "pyobject sdk \<Rightarrow> PostLinkStoreRequest \<Rightarrow> string option \<Rightarrow> sdk_client
     \<Rightarrow> (exn + JSONResponse) \<times> sdk_client" where
  "post_link_store sdk request authorization c =
     (let c1 = set_auth_from_request authorization c;
          call = Verification_post_link_store (id' request) (thid request) (type' request)
                   (from_did request) (typ' request) (body request)
      in case sdk call c1 of
           Inl e \<Rightarrow> (handle_sdk_error e, invoke call c1)
         | Inr result \<Rightarrow>
             (Inr (dict_response [(''proofRequestUrl'', result ''proof_request_url''),
                                  (''iden3commUrl'', result ''iden3comm_url'')]),
              invoke call c1))"

definition verify_callback ::
  "pyobject sdk \<Rightarrow> VerifyCallbackRequest \<Rightarrow> string \<Rightarrow> string option \<Rightarrow> sdk_client
     \<Rightarrow> (exn + JSONResponse) \<times> sdk_client" where
  "verify_callback sdk request sessionId authorization c =
     (let c1 = set_auth_from_request authorization c;
          call = Verification_verify_callback sessionId (token request)
      in case sdk call c1 of
           Inl e \<Rightarrow> (handle_sdk_error e, invoke call c1)
         | Inr result \<Rightarrow>
             (Inr (dict_response [(''id'', result ''id''),
                                  (''typ'', result ''typ''),
                                  (''type'', result ''type''),
                                  (''thid'', result ''thid''),
                                  (''body'', result ''body''),
                                  (''from'', result ''from_did''),
                                  (''to'', result ''to'')]),
              invoke call c1))"

definition start_session ::
  "pyobject sdk \<Rightarrow> StartSessionRequest \<Rightarrow> sdk_client \<Rightarrow> (exn + JSONResponse) \<times> sdk_client" where
  "start_session sdk request c =
     (let call = Analytics_start_session (StartSessionRequest.user_id request)
                   (StartSessionRequest.anonymous_id request) (page_location request)
                   (StartSessionRequest.session_id request)
      in case sdk call c of
           Inl e \<Rightarrow> (handle_sdk_error e, invoke call c)
         | Inr result \<Rightarrow>
             (Inr (dict_response [(''success'', result ''success''),
                                  (''session_id'', result ''session_id''),
                                  (''timestamp'', result ''timestamp''),
                                  (''anonymous_id'', result ''anonymous_id''),
                                  (''linked'', result ''linked'')]),
              invoke call c))"

definition end_session ::
  "pyobject sdk \<Rightarrow> EndSessionRequest \<Rightarrow> sdk_client \<Rightarrow> (exn + JSONResponse) \<times> sdk_client" where
  "end_session sdk request c =
     (let call = Analytics_end_session (EndSessionRequest.session_id request)
                   (EndSessionRequest.user_id request) (EndSessionRequest.anonymous_id request)
                   (ended_at request)
      in case sdk call c of
           Inl e \<Rightarrow> (handle_sdk_error e, invoke call c)
         | Inr result \<Rightarrow>
             (Inr (dict_response [(''success'', result ''success''),
                                  (''timestamp'', result ''timestamp'')]),
              invoke call c))"

section \<open>The error taxonomy of the specification\<close>










section \<open>Concrete inputs\<close>

text \<open>
  Two SDKs with a fixed outcome, a fresh client, and one request of every model, for
  the instances below.
\<close>

definition raising_sdk :: "exn \<Rightarrow> 'r sdk" where
  "raising_sdk e = (\<lambda>call c. Inl e)"

definition returning_sdk :: "'r \<Rightarrow> 'r sdk" where
  "returning_sdk r = (\<lambda>call c. Inr r)"

definition empty_client :: sdk_client where
  "empty_client = \<lparr>auth_token = None, history = []\<rparr>"



text \<open>
  An exception that is no SDK error and has a truthy \<^verbatim>\<open>context\<close> of its own: a
  non-empty list, which has none of the three attributes.
\<close>

definition foreign_context_error_example :: exn where
  "foreign_context_error_example =
     \<lparr>is_AuthenticationError = False, is_NetworkError = False, is_ServerError = False,
      is_DCIDServerSDKError = False, str = ''invalid document'',
      status_code = None, is_api_key_error = False, code = PNone,
      context' = Context_object ''list'' Map.empty\<rparr>"

definition sdk_context_example :: pycontext where
  "sdk_context_example =
     Context_object ''ErrorContext''
       [''url'' \<mapsto> PStr ''https://api.example.com/otp'', ''status_code'' \<mapsto> PInt 503,
        ''error_source'' \<mapsto> PStr ''network'']"

definition network_error_example :: exn where
  "network_error_example =
     \<lparr>is_AuthenticationError = False, is_NetworkError = True, is_ServerError = False,
      is_DCIDServerSDKError = True, str = ''connection refused'',
      status_code = Some 503, is_api_key_error = False, code = PStr ''ECONNREFUSED'',
      context' = sdk_context_example\<rparr>"

definition server_error_zero_example :: exn where
  "server_error_zero_example =
     \<lparr>is_AuthenticationError = False, is_NetworkError = False, is_ServerError = True,
      is_DCIDServerSDKError = True, str = ''upstream failure'',
      status_code = Some 0, is_api_key_error = False, code = PNone,
      context' = Falsy_context\<rparr>"

definition authentication_error_example :: exn where
  "authentication_error_example =
     \<lparr>is_AuthenticationError = True, is_NetworkError = False, is_ServerError = False,
      is_DCIDServerSDKError = True, str = ''invalid API key'',
      status_code = Some 403, is_api_key_error = True, code = PNone,
      context' = sdk_context_example\<rparr>"


definition tokens_example :: pyobject where
  "tokens_example =
     (\<lambda>attr. if attr = ''access_token'' then PStr ''access-1''
            else if attr = ''refresh_token'' then PStr ''refresh-1''
            else PNone)"

definition qr_only_result :: pydict where
  "qr_only_result = [''qr_code_link'' \<mapsto> PStr ''iden3comm://offer-1'']"

definition qr_result :: pydict where
  "qr_result =
     [''qr_code_link'' \<mapsto> PStr ''iden3comm://offer-1'', ''schema_type'' \<mapsto> PStr ''Membership'']"

definition tx_result :: pydict where
  "tx_result = [''tx_id'' \<mapsto> PStr ''tx-1'', ''claim_id'' \<mapsto> PStr ''claim-1'']"

definition register_example :: RegisterOTPRequest where
  "register_example =
     \<lparr>RegisterOTPRequest.email = Some ''user@example.com'', phone = None\<rparr>"

definition confirm_example :: ConfirmOTPRequest where
  "confirm_example =
     \<lparr>ConfirmOTPRequest.email = Some ''user@example.com'', phone = None, otp = ''123456''\<rparr>"

definition refresh_example :: RefreshTokenRequest where
  "refresh_example =
     \<lparr>refresh_token = ''r-0''\<rparr>"

definition get_key_example :: GetEncryptedKeyRequest where
  "get_key_example =
     \<lparr>GetEncryptedKeyRequest.did = ''did:example:1''\<rparr>"

definition generate_key_example :: GenerateEncryptionKeyRequest where
  "generate_key_example =
     \<lparr>GenerateEncryptionKeyRequest.did = ''did:example:1'', owner_email = ''user@example.com''\<rparr>"

definition issue_example :: IssueCredentialRequest where
  "issue_example =
     \<lparr>IssueCredentialRequest.did = ''did:example:1'', credential_name = ''Membership'',
      values' = [(''level'', PInt 2)], owner_email = ''user@example.com''\<rparr>"

definition store_example :: StoreCredentialRequest where
  "store_example =
     \<lparr>StoreCredentialRequest.did = ''did:example:1'', credential_type = ''Membership'',
      credential = PDict [(''level'', PInt 2)], encrypted = True\<rparr>"

definition retrieve_example :: RetrieveUserCredentialRequest where
  "retrieve_example =
     \<lparr>RetrieveUserCredentialRequest.did = ''did:example:1'', credential_type = ''Membership'',
      include_cid_only = False\<rparr>"

definition get_all_example :: GetAllUserCredentialsRequest where
  "get_all_example =
     \<lparr>GetAllUserCredentialsRequest.did = ''did:example:1'', include_credential_data = False\<rparr>"

definition verify_sign_in_example :: VerifySignInRequest where
  "verify_sign_in_example =
     \<lparr>VerifySignInRequest.credential_name = ''Membership''\<rparr>"

definition post_link_example :: PostLinkStoreRequest where
  "post_link_example =
     \<lparr>id' = ''link-1'', thid = ''thread-1'', type' = ''request'', from_did = ''did:example:2'',
      typ' = ''application/json'', body = []\<rparr>"

definition callback_example :: VerifyCallbackRequest where
  "callback_example =
     \<lparr>token = ''jwz''\<rparr>"

definition start_session_example :: StartSessionRequest where
  "start_session_example =
     \<lparr>StartSessionRequest.user_id = None, anonymous_id = None, page_location = None,
      session_id = None\<rparr>"

definition end_session_example :: EndSessionRequest where
  "end_session_example =
     \<lparr>EndSessionRequest.session_id = ''session-1'', user_id = None, anonymous_id = None,
      ended_at = None\<rparr>"
section \<open>Properties\<close>

lemmas http_status_defs =
  HTTP_200_OK_def HTTP_401_UNAUTHORIZED_def HTTP_500_INTERNAL_SERVER_ERROR_def
  HTTP_502_BAD_GATEWAY_def

lemmas handler_defs =
  sign_in_initiate_def sign_in_confirm_def admin_login_def token_refresh_def
  get_encrypted_key_def generate_encrypted_key_def issue_credential_def
  get_credential_offer_def store_credential_def retrieve_user_credential_def
  get_all_user_credentials_def verify_sign_in_def get_link_store_def post_link_store_def
  verify_callback_def start_session_def end_session_def

text \<open>
  When the diagnostic output does not raise, \<open>handle_sdk_error\<close> returns the response of
  the classification; otherwise it raises and returns no response.
\<close>

lemma handle_sdk_error_printable:
  "context_printable e \<Longrightarrow> handle_sdk_error e = Inr (error_response e)"
  by (auto simp add: handle_sdk_error_def print_error_details_def context_printable_def
      split: pycontext.splits option.splits)

lemma handle_sdk_error_not_printable:
  "\<not> context_printable e \<Longrightarrow> \<exists>raised. handle_sdk_error e = Inl raised"
  by (auto simp add: handle_sdk_error_def print_error_details_def context_printable_def
      split: pycontext.splits option.splits)

subsection \<open>Error classification\<close>




text \<open>
  C2, as the code has it. An exception handled as an authentication, server or generic
  SDK error that carries a status code other than 0 is answered with that status code.
  A network error is answered with 502 whatever status it carries. An error that carries
  no status is answered with the default of its class: 401, 502 or 500. The response is
  that of the classification, which \<open>handle_sdk_error\<close> returns for every error whose
  context the diagnostic output can print, as it can the SDK's own.
\<close>

theorem status_code_preserved_or_default:
  "((is_AuthenticationError e \<or>
     \<not> is_NetworkError e \<and> (is_ServerError e \<or> is_DCIDServerSDKError e)) \<and>
    exn.status_code e = Some n \<and> n \<noteq> 0
      \<longrightarrow> JSONResponse.status_code (error_response e) = n) \<and>
   (\<not> is_AuthenticationError e \<and> is_NetworkError e
      \<longrightarrow> JSONResponse.status_code (error_response e) = 502) \<and>
   (exn.status_code e = None
      \<longrightarrow> JSONResponse.status_code (error_response e) =
          (if is_AuthenticationError e then 401 else if is_NetworkError e then 502 else 500)) \<and>
   (context_printable e \<longrightarrow> handle_sdk_error e = Inr (error_response e))"
  by (simp add: handle_sdk_error_printable error_response_def status_or_def http_status_defs)

theorem status_code_preserved_or_default_witness:
  "context_printable authentication_error_example \<and>
   handle_sdk_error authentication_error_example =
     Inr (error_response authentication_error_example) \<and>
   JSONResponse.status_code (error_response authentication_error_example) = 403 \<and>
   context_printable network_error_example \<and>
   handle_sdk_error network_error_example = Inr (error_response network_error_example) \<and>
   JSONResponse.status_code (error_response network_error_example) = 502 \<and>
   JSONResponse.status_code
     (error_response (authentication_error_example\<lparr>exn.status_code := None\<rparr>)) = 401"
  using status_code_preserved_or_default [of authentication_error_example 403]
    status_code_preserved_or_default [of network_error_example]
    status_code_preserved_or_default [of "authentication_error_example\<lparr>exn.status_code := None\<rparr>"]
  by (simp add: authentication_error_example_def network_error_example_def
      sdk_context_example_def context_printable_def)

text \<open>
  The claim as the specification words it, that every SDK error carrying a status code
  is answered with that status code, fails twice: a network error of the SDK carrying 503
  is answered with 502, and a server error whose status code is 0 is answered with 500.
\<close>

theorem network_error_status_not_preserved:
  "is_DCIDServerSDKError network_error_example \<and>
   exn.status_code network_error_example = Some 503 \<and>
   handle_sdk_error network_error_example = Inr (error_response network_error_example) \<and>
   JSONResponse.status_code (error_response network_error_example) = 502 \<and>
   is_DCIDServerSDKError server_error_zero_example \<and>
   exn.status_code server_error_zero_example = Some 0 \<and>
   handle_sdk_error server_error_zero_example =
     Inr (error_response server_error_zero_example) \<and>
   JSONResponse.status_code (error_response server_error_zero_example) = 500"
  by (simp add: network_error_example_def server_error_zero_example_def
      sdk_context_example_def handle_sdk_error_def print_error_details_def
      error_response_def status_or_def http_status_defs)

text \<open>
  C3. Every network error is answered with status 502, whatever \<^verbatim>\<open>status_code\<close> or
  \<^verbatim>\<open>code\<close> it carries, and the body holds the error's \<^verbatim>\<open>code\<close> under the key
  \<^verbatim>\<open>code\<close>. A network error is an exception that reaches the \<^verbatim>\<open>NetworkError\<close> branch:
  an instance of \<^verbatim>\<open>NetworkError\<close> that is not also an \<^verbatim>\<open>AuthenticationError\<close>, which
  the first branch would take. The response is that of the classification, which
  \<open>handle_sdk_error\<close> returns for every error whose context the diagnostic output can
  print, as it can the SDK's own.
\<close>

theorem network_error_always_502:
  "is_NetworkError e \<Longrightarrow> \<not> is_AuthenticationError e \<Longrightarrow>
     JSONResponse.status_code (error_response e) = 502 \<and>
     map_of (content (error_response e)) ''code'' = Some (code e) \<and>
     (context_printable e \<longrightarrow> handle_sdk_error e = Inr (error_response e))"
  by (simp add: handle_sdk_error_printable error_response_def http_status_defs)

theorem network_error_always_502_witness:
  "is_NetworkError network_error_example \<and> \<not> is_AuthenticationError network_error_example \<and>
   exn.status_code network_error_example = Some 503 \<and>
   context_printable network_error_example \<and>
   handle_sdk_error network_error_example = Inr (error_response network_error_example) \<and>
   JSONResponse.status_code (error_response network_error_example) = 502 \<and>
   map_of (content (error_response network_error_example)) ''code'' =
     Some (PStr ''ECONNREFUSED'')"
  using network_error_always_502 [of network_error_example]
  by (simp add: network_error_example_def sdk_context_example_def context_printable_def)

subsection \<open>Handlers\<close>

text \<open>
  C4. The claim is that every handler answers every exception of its SDK call,
  recognised or not, with a structured body and lets none propagate. The code does not:
  for an exception that is no SDK error and has a truthy \<^verbatim>\<open>context\<close> of its own, the
  diagnostic output of \<open>handle_sdk_error\<close> raises \<^verbatim>\<open>AttributeError\<close> inside the
  \<^verbatim>\<open>except\<close> clause, and that exception leaves the handler. Here every handler is run
  on an SDK that raises such an exception.
\<close>

theorem handlers_propagate_attribute_error:
  "\<not> is_AuthenticationError foreign_context_error_example \<and>
   \<not> is_NetworkError foreign_context_error_example \<and>
   \<not> is_ServerError foreign_context_error_example \<and>
   \<not> is_DCIDServerSDKError foreign_context_error_example \<and>
   handle_sdk_error foreign_context_error_example = Inl (AttributeError ''list'' ''url'') \<and>
   fst (sign_in_initiate (raising_sdk foreign_context_error_example) register_example empty_client)
     = Inl (AttributeError ''list'' ''url'') \<and>
   fst (sign_in_confirm (raising_sdk foreign_context_error_example) confirm_example empty_client)
     = Inl (AttributeError ''list'' ''url'') \<and>
   fst (admin_login (raising_sdk foreign_context_error_example) register_example empty_client)
     = Inl (AttributeError ''list'' ''url'') \<and>
   fst (token_refresh (raising_sdk foreign_context_error_example) refresh_example empty_client)
     = Inl (AttributeError ''list'' ''url'') \<and>
   fst (get_encrypted_key (raising_sdk foreign_context_error_example) get_key_example (Some ''Bearer abc'') empty_client)
     = Inl (AttributeError ''list'' ''url'') \<and>
   fst (generate_encrypted_key (raising_sdk foreign_context_error_example) generate_key_example (Some ''Bearer abc'') empty_client)
     = Inl (AttributeError ''list'' ''url'') \<and>
   fst (issue_credential (raising_sdk foreign_context_error_example) issue_example (Some ''Bearer abc'') empty_client)
     = Inl (AttributeError ''list'' ''url'') \<and>
   fst (get_credential_offer (raising_sdk foreign_context_error_example) ''claim-1'' ''tx-1'' (Some ''Bearer abc'') empty_client)
     = Inl (AttributeError ''list'' ''url'') \<and>
   fst (store_credential (raising_sdk foreign_context_error_example) store_example (Some ''Bearer abc'') empty_client)
     = Inl (AttributeError ''list'' ''url'') \<and>
   fst (retrieve_user_credential (raising_sdk foreign_context_error_example) retrieve_example (Some ''Bearer abc'') empty_client)
     = Inl (AttributeError ''list'' ''url'') \<and>
   fst (get_all_user_credentials (raising_sdk foreign_context_error_example) get_all_example (Some ''Bearer abc'') empty_client)
     = Inl (AttributeError ''list'' ''url'') \<and>
   fst (verify_sign_in (raising_sdk foreign_context_error_example) verify_sign_in_example (Some ''Bearer abc'') empty_client)
     = Inl (AttributeError ''list'' ''url'') \<and>
   fst (get_link_store (raising_sdk foreign_context_error_example) ''link-1'' (Some ''Bearer abc'') empty_client)
     = Inl (AttributeError ''list'' ''url'') \<and>
   fst (post_link_store (raising_sdk foreign_context_error_example) post_link_example (Some ''Bearer abc'') empty_client)
     = Inl (AttributeError ''list'' ''url'') \<and>
   fst (verify_callback (raising_sdk foreign_context_error_example) callback_example ''session-1'' (Some ''Bearer abc'') empty_client)
     = Inl (AttributeError ''list'' ''url'') \<and>
   fst (start_session (raising_sdk foreign_context_error_example) start_session_example empty_client)
     = Inl (AttributeError ''list'' ''url'') \<and>
   fst (end_session (raising_sdk foreign_context_error_example) end_session_example empty_client)
     = Inl (AttributeError ''list'' ''url'')"
  by (simp add: handler_defs Let_def raising_sdk_def foreign_context_error_example_def
      handle_sdk_error_def print_error_details_def)

text \<open>
  The defect is confined to the diagnostic output. Whenever the SDK call of a handler
  raises an exception \<open>e\<close>, the outcome of the handler is that of \<open>handle_sdk_error e\<close>;
  and when the context of \<open>e\<close> can be printed, that is a response with the error's message
  under \<^verbatim>\<open>error\<close> and a string under \<^verbatim>\<open>type\<close>, which for an exception of none of the
  four SDK classes is status 500 with type \<^verbatim>\<open>UnknownError\<close>.
\<close>

lemma handlers_answer_with_handle_sdk_error:
  "(
   (sdk (Auth_register_otp (RegisterOTPRequest.email reg) (RegisterOTPRequest.phone reg))
      c = Inl e
      \<longrightarrow> fst (sign_in_initiate sdk reg c) = handle_sdk_error e) \<and>
   (sdk (Auth_confirm_otp (ConfirmOTPRequest.email conf) (ConfirmOTPRequest.phone conf) (otp conf))
      c = Inl e
      \<longrightarrow> fst (sign_in_confirm sdk conf c) = handle_sdk_error e) \<and>
   (sdk (Auth_admin_login (RegisterOTPRequest.email reg) (RegisterOTPRequest.phone reg))
      c = Inl e
      \<longrightarrow> fst (admin_login sdk reg c) = handle_sdk_error e) \<and>
   (sdk (Auth_refresh_token (refresh_token refr))
      c = Inl e
      \<longrightarrow> fst (token_refresh sdk refr c) = handle_sdk_error e) \<and>
   (sdk (Encryption_get_key (GetEncryptedKeyRequest.did gek))
      (set_auth_from_request a c) = Inl e
      \<longrightarrow> fst (get_encrypted_key sdk gek a c) = handle_sdk_error e) \<and>
   (sdk (Encryption_generate_key (GenerateEncryptionKeyRequest.did gen) (GenerateEncryptionKeyRequest.owner_email gen))
      (set_auth_from_request a c) = Inl e
      \<longrightarrow> fst (generate_encrypted_key sdk gen a c) = handle_sdk_error e) \<and>
   (sdkd (Issuer_issue_credential (IssueCredentialRequest.did iss) (IssueCredentialRequest.credential_name iss) (values' iss) (IssueCredentialRequest.owner_email iss))
      (set_auth_from_request a c) = Inl e
      \<longrightarrow> fst (issue_credential sdkd iss a c) = handle_sdk_error e) \<and>
   (sdk (Issuer_get_credential_offer claimId txId)
      (set_auth_from_request a c) = Inl e
      \<longrightarrow> fst (get_credential_offer sdk claimId txId a c) = handle_sdk_error e) \<and>
   (sdk (Ipfs_store_credential (StoreCredentialRequest.did sto) (StoreCredentialRequest.credential_type sto) (credential sto) (encrypted sto))
      (set_auth_from_request a c) = Inl e
      \<longrightarrow> fst (store_credential sdk sto a c) = handle_sdk_error e) \<and>
   (sdk (Ipfs_retrieve_user_credential (RetrieveUserCredentialRequest.did ret) (RetrieveUserCredentialRequest.credential_type ret) (include_cid_only ret))
      (set_auth_from_request a c) = Inl e
      \<longrightarrow> fst (retrieve_user_credential sdk ret a c) = handle_sdk_error e) \<and>
   (sdk (Ipfs_get_all_user_credentials (GetAllUserCredentialsRequest.did gal) (include_credential_data gal))
      (set_auth_from_request a c) = Inl e
      \<longrightarrow> fst (get_all_user_credentials sdk gal a c) = handle_sdk_error e) \<and>
   (sdk (Verification_verify_sign_in (VerifySignInRequest.credential_name vsi))
      (set_auth_from_request a c) = Inl e
      \<longrightarrow> fst (verify_sign_in sdk vsi a c) = handle_sdk_error e) \<and>
   (sdk (Verification_get_link_store ident)
      (set_auth_from_request a c) = Inl e
      \<longrightarrow> fst (get_link_store sdk ident a c) = handle_sdk_error e) \<and>
   (sdk (Verification_post_link_store (id' pls) (thid pls) (type' pls) (from_did pls) (typ' pls) (body pls))
      (set_auth_from_request a c) = Inl e
      \<longrightarrow> fst (post_link_store sdk pls a c) = handle_sdk_error e) \<and>
   (sdk (Verification_verify_callback sessionId (token vcb))
      (set_auth_from_request a c) = Inl e
      \<longrightarrow> fst (verify_callback sdk vcb sessionId a c) = handle_sdk_error e) \<and>
   (sdk (Analytics_start_session (StartSessionRequest.user_id sts) (StartSessionRequest.anonymous_id sts) (page_location sts) (StartSessionRequest.session_id sts))
      c = Inl e
      \<longrightarrow> fst (start_session sdk sts c) = handle_sdk_error e) \<and>
   (sdk (Analytics_end_session (EndSessionRequest.session_id ens) (EndSessionRequest.user_id ens) (EndSessionRequest.anonymous_id ens) (ended_at ens))
      c = Inl e
      \<longrightarrow> fst (end_session sdk ens c) = handle_sdk_error e)) \<and>
   (context_printable e \<longrightarrow>
      handle_sdk_error e = Inr (error_response e) \<and>
      map_of (content (error_response e)) ''error'' = Some (PStr (str e)) \<and>
      (\<exists>tag. map_of (content (error_response e)) ''type'' = Some (PStr tag))) \<and>
   (\<not> is_AuthenticationError e \<and> \<not> is_NetworkError e \<and> \<not> is_ServerError e \<and>
    \<not> is_DCIDServerSDKError e
      \<longrightarrow> error_response e =
          \<lparr>JSONResponse.status_code = 500,
           content = [(''error'', PStr (str e)), (''type'', PStr ''UnknownError'')]\<rparr>)"
  by (simp add: handler_defs Let_def handle_sdk_error_printable error_response_def
      http_status_defs)

text \<open>
  C5, as the code has it. Every handler but \<^verbatim>\<open>health\<close> makes exactly one call of an
  operation of an SDK sub-module, whether the operation succeeds or raises, after the
  bearer token of the request, if any, is installed; \<^verbatim>\<open>health\<close> makes no call. When the
  operation succeeds, \<^verbatim>\<open>sign_in_confirm\<close> and \<^verbatim>\<open>token_refresh\<close> also call
  \<^verbatim>\<open>sdk.set_tokens\<close> with the tokens it returned. No handler does anything else to the
  client.
\<close>

theorem handlers_sdk_calls:
  "
   snd (health c) = c \<and>
   snd (sign_in_initiate sdk reg c) =
     invoke (Auth_register_otp (RegisterOTPRequest.email reg) (RegisterOTPRequest.phone reg))
       c \<and>
   snd (sign_in_confirm sdk conf c) =
     (case sdk (Auth_confirm_otp (ConfirmOTPRequest.email conf) (ConfirmOTPRequest.phone conf) (otp conf)) c of
        Inl e \<Rightarrow>
          invoke (Auth_confirm_otp (ConfirmOTPRequest.email conf) (ConfirmOTPRequest.phone conf) (otp conf)) c
      | Inr tokens \<Rightarrow>
          set_tokens tokens
            (invoke (Auth_confirm_otp (ConfirmOTPRequest.email conf) (ConfirmOTPRequest.phone conf) (otp conf)) c)) \<and>
   snd (admin_login sdk reg c) =
     invoke (Auth_admin_login (RegisterOTPRequest.email reg) (RegisterOTPRequest.phone reg))
       c \<and>
   snd (token_refresh sdk refr c) =
     (case sdk (Auth_refresh_token (refresh_token refr)) c of
        Inl e \<Rightarrow>
          invoke (Auth_refresh_token (refresh_token refr)) c
      | Inr tokens \<Rightarrow>
          set_tokens tokens
            (invoke (Auth_refresh_token (refresh_token refr)) c)) \<and>
   snd (get_encrypted_key sdk gek a c) =
     invoke (Encryption_get_key (GetEncryptedKeyRequest.did gek))
       (set_auth_from_request a c) \<and>
   snd (generate_encrypted_key sdk gen a c) =
     invoke (Encryption_generate_key (GenerateEncryptionKeyRequest.did gen) (GenerateEncryptionKeyRequest.owner_email gen))
       (set_auth_from_request a c) \<and>
   snd (issue_credential sdkd iss a c) =
     invoke (Issuer_issue_credential (IssueCredentialRequest.did iss) (IssueCredentialRequest.credential_name iss) (values' iss) (IssueCredentialRequest.owner_email iss))
       (set_auth_from_request a c) \<and>
   snd (get_credential_offer sdk claimId txId a c) =
     invoke (Issuer_get_credential_offer claimId txId)
       (set_auth_from_request a c) \<and>
   snd (store_credential sdk sto a c) =
     invoke (Ipfs_store_credential (StoreCredentialRequest.did sto) (StoreCredentialRequest.credential_type sto) (credential sto) (encrypted sto))
       (set_auth_from_request a c) \<and>
   snd (retrieve_user_credential sdk ret a c) =
     invoke (Ipfs_retrieve_user_credential (RetrieveUserCredentialRequest.did ret) (RetrieveUserCredentialRequest.credential_type ret) (include_cid_only ret))
       (set_auth_from_request a c) \<and>
   snd (get_all_user_credentials sdk gal a c) =
     invoke (Ipfs_get_all_user_credentials (GetAllUserCredentialsRequest.did gal) (include_credential_data gal))
       (set_auth_from_request a c) \<and>
   snd (verify_sign_in sdk vsi a c) =
     invoke (Verification_verify_sign_in (VerifySignInRequest.credential_name vsi))
       (set_auth_from_request a c) \<and>
   snd (get_link_store sdk ident a c) =
     invoke (Verification_get_link_store ident)
       (set_auth_from_request a c) \<and>
   snd (post_link_store sdk pls a c) =
     invoke (Verification_post_link_store (id' pls) (thid pls) (type' pls) (from_did pls) (typ' pls) (body pls))
       (set_auth_from_request a c) \<and>
   snd (verify_callback sdk vcb sessionId a c) =
     invoke (Verification_verify_callback sessionId (token vcb))
       (set_auth_from_request a c) \<and>
   snd (start_session sdk sts c) =
     invoke (Analytics_start_session (StartSessionRequest.user_id sts) (StartSessionRequest.anonymous_id sts) (page_location sts) (StartSessionRequest.session_id sts))
       c \<and>
   snd (end_session sdk ens c) =
     invoke (Analytics_end_session (EndSessionRequest.session_id ens) (EndSessionRequest.user_id ens) (EndSessionRequest.anonymous_id ens) (ended_at ens))
       c"
  by (simp add: handler_defs health_def Let_def split: sum.split)

text \<open>
  The claim as the specification words it, that every handler invokes exactly one SDK
  operation and changes the SDK's state by nothing but that dispatch and the bearer
  token, fails: after a successful confirmation \<^verbatim>\<open>sign_in_confirm\<close> has made two calls
  on the client, the second being \<^verbatim>\<open>set_tokens\<close>, and \<^verbatim>\<open>health\<close> has made none.
\<close>

theorem sign_in_confirm_calls_set_tokens:
  "history (snd (sign_in_confirm (returning_sdk tokens_example) confirm_example empty_client)) =
     [Auth_confirm_otp (Some ''user@example.com'') None ''123456'', Set_tokens tokens_example] \<and>
   snd (sign_in_confirm (returning_sdk tokens_example) confirm_example empty_client) \<noteq>
     invoke (Auth_confirm_otp (Some ''user@example.com'') None ''123456'') empty_client \<and>
   history (snd (health empty_client)) = []"
  by (simp add: sign_in_confirm_def returning_sdk_def confirm_example_def empty_client_def
      set_tokens_def invoke_def health_def)

subsection \<open>Response shapes\<close>

text \<open>
  What \<open>handle_sdk_error\<close> returns is the response of the classification, whose keys
  are among four; and every response of \<^verbatim>\<open>issue_credential\<close> is such a response or
  one of the two shapes.
\<close>

lemma handle_sdk_error_returns:
  "handle_sdk_error e = Inr r \<Longrightarrow> r = error_response e"
  by (simp add: handle_sdk_error_def split: sum.splits)

lemma error_response_keys:
  "fst ` set (content (error_response e)) \<subseteq> {''error'', ''type'', ''isAPIKeyError'', ''code''}"
  by (simp add: error_response_def)

lemma issue_credential_responses:
  "fst (issue_credential sdkd iss a c) = Inr r \<Longrightarrow>
     (\<exists>e. r = error_response e) \<or>
     (\<exists>qr st. content r = [(''qrCodeLink'', qr), (''schemaType'', st)]) \<or>
     (\<exists>tx cl. content r = [(''txId'', tx), (''claimId'', cl)])"
  by (auto simp add: issue_credential_def Let_def getitem_def dict_response_def
      split: sum.splits option.splits if_splits dest: handle_sdk_error_returns)

text \<open>
  C6, as the code has it. When the result of the SDK holds a QR-code link and a schema
  type, the response of \<^verbatim>\<open>issue_credential\<close> is exactly
  \<^verbatim>\<open>{qrCodeLink, schemaType}\<close>; when it holds no QR-code link but a transaction id and a
  claim id, the response is exactly \<^verbatim>\<open>{txId, claimId}\<close>. No response of the handler,
  whatever the SDK does, has a key of both shapes.
\<close>

theorem issue_credential_response_shapes:
  "(sdkd (Issuer_issue_credential (IssueCredentialRequest.did iss)
            (IssueCredentialRequest.credential_name iss) (values' iss)
            (IssueCredentialRequest.owner_email iss))
      (set_auth_from_request a c) = Inr result \<longrightarrow>
      (result ''qr_code_link'' = Some qr \<and> result ''schema_type'' = Some st \<longrightarrow>
         fst (issue_credential sdkd iss a c) =
           Inr \<lparr>JSONResponse.status_code = 200,
                content = [(''qrCodeLink'', qr), (''schemaType'', st)]\<rparr>) \<and>
      (result ''qr_code_link'' = None \<and> result ''tx_id'' = Some tx \<and>
       result ''claim_id'' = Some cl \<longrightarrow>
         fst (issue_credential sdkd iss a c) =
           Inr \<lparr>JSONResponse.status_code = 200,
                content = [(''txId'', tx), (''claimId'', cl)]\<rparr>)) \<and>
   (fst (issue_credential sdkd iss a c) = Inr response \<longrightarrow>
      \<not> ((''qrCodeLink'' \<in> fst ` set (content response) \<or>
           ''schemaType'' \<in> fst ` set (content response)) \<and>
          (''txId'' \<in> fst ` set (content response) \<or>
           ''claimId'' \<in> fst ` set (content response))))"
proof -
  have shapes:
    "sdkd (Issuer_issue_credential (IssueCredentialRequest.did iss)
            (IssueCredentialRequest.credential_name iss) (values' iss)
            (IssueCredentialRequest.owner_email iss))
      (set_auth_from_request a c) = Inr result \<longrightarrow>
      (result ''qr_code_link'' = Some qr \<and> result ''schema_type'' = Some st \<longrightarrow>
         fst (issue_credential sdkd iss a c) =
           Inr \<lparr>JSONResponse.status_code = 200,
                content = [(''qrCodeLink'', qr), (''schemaType'', st)]\<rparr>) \<and>
      (result ''qr_code_link'' = None \<and> result ''tx_id'' = Some tx \<and>
       result ''claim_id'' = Some cl \<longrightarrow>
         fst (issue_credential sdkd iss a c) =
           Inr \<lparr>JSONResponse.status_code = 200,
                content = [(''txId'', tx), (''claimId'', cl)]\<rparr>)"
    by (simp add: issue_credential_def Let_def getitem_def dict_response_def
        http_status_defs)
  have exclusive:
    "\<not> ((''qrCodeLink'' \<in> fst ` set (content response) \<or>
          ''schemaType'' \<in> fst ` set (content response)) \<and>
         (''txId'' \<in> fst ` set (content response) \<or>
          ''claimId'' \<in> fst ` set (content response)))"
    if "fst (issue_credential sdkd iss a c) = Inr response"
  proof -
    from issue_credential_responses [OF that]
    consider e where "response = error_response e"
      | qr' st' where "content response = [(''qrCodeLink'', qr'), (''schemaType'', st')]"
      | tx' cl' where "content response = [(''txId'', tx'), (''claimId'', cl')]"
      by blast
    then show ?thesis
    proof cases
      case 1
      with error_response_keys [of e] show ?thesis by auto
    next
      case 2
      then show ?thesis by simp
    next
      case 3
      then show ?thesis by simp
    qed
  qed
  from shapes exclusive show ?thesis by blast
qed

theorem issue_credential_response_shapes_witness:
  "fst (issue_credential (returning_sdk qr_result) issue_example (Some ''Bearer abc'')
          empty_client) =
     Inr \<lparr>JSONResponse.status_code = 200,
          content = [(''qrCodeLink'', PStr ''iden3comm://offer-1''),
                     (''schemaType'', PStr ''Membership'')]\<rparr> \<and>
   fst (issue_credential (returning_sdk tx_result) issue_example (Some ''Bearer abc'')
          empty_client) =
     Inr \<lparr>JSONResponse.status_code = 200,
          content = [(''txId'', PStr ''tx-1''), (''claimId'', PStr ''claim-1'')]\<rparr> \<and>
   \<not> (''txId'' \<in> fst ` set [(''qrCodeLink'', PStr ''iden3comm://offer-1''),
                             (''schemaType'', PStr ''Membership'')])"
  using
    issue_credential_response_shapes [where sdkd = "returning_sdk qr_result"
      and iss = issue_example and a = "Some ''Bearer abc''" and c = empty_client
      and result = qr_result and qr = "PStr ''iden3comm://offer-1''"
      and st = "PStr ''Membership''"
      and response = "\<lparr>JSONResponse.status_code = 200,
          content = [(''qrCodeLink'', PStr ''iden3comm://offer-1''),
                     (''schemaType'', PStr ''Membership'')]\<rparr>"]
    issue_credential_response_shapes [where sdkd = "returning_sdk tx_result"
      and iss = issue_example and a = "Some ''Bearer abc''" and c = empty_client
      and result = tx_result and tx = "PStr ''tx-1''" and cl = "PStr ''claim-1''"]
  by (simp add: returning_sdk_def qr_result_def tx_result_def)

text \<open>
  The claim as the specification words it, that a result holding a QR-code link is
  answered with \<^verbatim>\<open>{qrCodeLink, schemaType}\<close>, fails for a result that holds the link
  and no schema type: the subscript raises \<^verbatim>\<open>KeyError\<close>, and the response is the
  500 of an unknown error.
\<close>

theorem issue_credential_missing_schema_type:
  "qr_only_result ''qr_code_link'' = Some (PStr ''iden3comm://offer-1'') \<and>
   fst (issue_credential (returning_sdk qr_only_result) issue_example None empty_client) =
     Inr \<lparr>JSONResponse.status_code = 500,
          content = [(''error'', PStr ([CHR 0x27] @ ''schema_type'' @ [CHR 0x27])),
                     (''type'', PStr ''UnknownError'')]\<rparr>"
  by (simp add: issue_credential_def returning_sdk_def qr_only_result_def getitem_def
      KeyError_def handle_sdk_error_def print_error_details_def error_response_def
      set_auth_from_request_def http_status_defs)

text \<open>
  C7. For an authorization header \<^verbatim>\<open>Bearer <token>\<close>, \<open>set_auth_from_request\<close> calls
  \<^verbatim>\<open>sdk.set_auth_token\<close> with exactly the text after the prefix, which becomes the
  client's auth token. For a header that is absent or does not start with
  \<^verbatim>\<open>Bearer \<close> (with the space), the client is left as it was.
\<close>

theorem set_auth_from_request_bearer:
  "set_auth_from_request (Some (''Bearer '' @ t)) c = set_auth_token t c \<and>
   auth_token (set_auth_from_request (Some (''Bearer '' @ t)) c) = Some t \<and>
   (authorization = None \<or> (\<exists>a. authorization = Some a \<and> \<not> startswith a ''Bearer '')
      \<longrightarrow> set_auth_from_request authorization c = c)"
  by (auto simp add: set_auth_from_request_def startswith_def set_auth_token_def invoke_def)

theorem set_auth_from_request_bearer_witness:
  "set_auth_from_request (Some ''Bearer abc.def'') empty_client =
     \<lparr>auth_token = Some ''abc.def'', history = [Set_auth_token ''abc.def'']\<rparr> \<and>
   set_auth_from_request None empty_client = empty_client \<and>
   \<not> startswith ''Basic dXNlcg=='' ''Bearer '' \<and>
   set_auth_from_request (Some ''Basic dXNlcg=='') empty_client = empty_client"
  using set_auth_from_request_bearer [of "''abc.def''" empty_client None]
    set_auth_from_request_bearer [of "''abc.def''" empty_client "Some ''Basic dXNlcg==''"]
  by (simp add: startswith_def set_auth_token_def invoke_def empty_client_def)

text \<open>
  C8. When the SDK's \<^verbatim>\<open>confirm_otp\<close> succeeds for a confirmation request, the response
  of \<^verbatim>\<open>sign_in_confirm\<close> is status 200 with exactly the two keys \<^verbatim>\<open>access_token\<close> and
  \<^verbatim>\<open>refresh_token\<close>, holding the attributes of those names of the tokens the SDK
  returned.
\<close>

theorem sign_in_confirm_echoes_tokens:
  "sdk (Auth_confirm_otp (ConfirmOTPRequest.email request) (ConfirmOTPRequest.phone request)
          (otp request)) c = Inr tokens \<Longrightarrow>
   fst (sign_in_confirm sdk request c) =
     Inr \<lparr>JSONResponse.status_code = 200,
          content = [(''access_token'', tokens ''access_token''),
                     (''refresh_token'', tokens ''refresh_token'')]\<rparr>"
  by (simp add: sign_in_confirm_def dict_response_def http_status_defs)

theorem sign_in_confirm_echoes_tokens_witness:
  "returning_sdk tokens_example (Auth_confirm_otp (Some ''user@example.com'') None ''123456'')
      empty_client = Inr tokens_example \<and>
   fst (sign_in_confirm (returning_sdk tokens_example) confirm_example empty_client) =
     Inr \<lparr>JSONResponse.status_code = 200,
          content = [(''access_token'', PStr ''access-1''),
                     (''refresh_token'', PStr ''refresh-1'')]\<rparr>"
  using sign_in_confirm_echoes_tokens
    [of "returning_sdk tokens_example" confirm_example empty_client tokens_example]
  by (simp add: returning_sdk_def confirm_example_def tokens_example_def)

text \<open>
  C9. \<^verbatim>\<open>health\<close> answers every request, in every state of the client, with status 200
  and the body \<^verbatim>\<open>{status: "ok", service: "dcid-server-sdk-test-server"}\<close>, and leaves
  the client as it was.
\<close>

theorem health_fixed_response:
  "health c =
     (\<lparr>JSONResponse.status_code = 200,
       content = [(''status'', PStr ''ok''),
                  (''service'', PStr ''dcid-server-sdk-test-server'')]\<rparr>, c)"
  by (simp add: health_def dict_response_def http_status_defs)

text \<open>
  C10. For a body that omits the optional boolean field, the handler calls the SDK with
  the default of the request model: \<^verbatim>\<open>encrypted\<close> true for \<^verbatim>\<open>store_credential\<close>,
  \<^verbatim>\<open>include_cid_only\<close> false for \<^verbatim>\<open>retrieve_user_credential\<close>, and
  \<^verbatim>\<open>include_credential_data\<close> false for \<^verbatim>\<open>get_all_user_credentials\<close>.
\<close>

theorem optional_boolean_defaults:
  "snd (store_credential sdk (StoreCredentialRequest_init d t cr None) a c) =
     invoke (Ipfs_store_credential d t cr True) (set_auth_from_request a c) \<and>
   snd (retrieve_user_credential sdk (RetrieveUserCredentialRequest_init d t None) a c) =
     invoke (Ipfs_retrieve_user_credential d t False) (set_auth_from_request a c) \<and>
   snd (get_all_user_credentials sdk (GetAllUserCredentialsRequest_init d None) a c) =
     invoke (Ipfs_get_all_user_credentials d False) (set_auth_from_request a c)"
  by (simp add: store_credential_def retrieve_user_credential_def get_all_user_credentials_def
      StoreCredentialRequest_init_def RetrieveUserCredentialRequest_init_def
      GetAllUserCredentialsRequest_init_def Let_def split: sum.split)

end
